theory Spec2Isabelle
  imports Complex_Main "HOL-Library.Sublist"
begin

section \<open>Data model (types.ts)\<close>

text \<open>
  A JavaScript \<open>number\<close> is modelled as an exact rational: the counts, ceilings,
  percentages and the literals \<open>0.8\<close> and \<open>0.95\<close> are all of type \<open>rat\<close>.
  Rounding, \<open>NaN\<close> and the infinities are outside the model. A \<open>Date\<close> is the
  number of milliseconds it holds; \<open>new Date()\<close> reads a clock, which the model
  takes as an argument.
\<close>

type_synonym Date = nat

record CursorProLimits =
  sonnet45Requests :: rat
  geminiRequests :: rat
  gpt5Requests :: rat
  totalRequests :: rat
  lastUpdated :: Date

text \<open>\<open>Partial<CursorProLimits>\<close>: every field may be absent.\<close>

record PartialLimits =
  p_sonnet45Requests :: "rat option"
  p_geminiRequests :: "rat option"
  p_gpt5Requests :: "rat option"
  p_totalRequests :: "rat option"
  p_lastUpdated :: "Date option"

text \<open>
  \<open>SubscriptionTier\<close> is a union of three string literals. The switch of
  \<open>getQuotasForTier\<close> has a default branch, so the tier is a string here.
\<close>

type_synonym SubscriptionTier = string

record CursorProQuotas =
  maxSonnet45Requests :: rat
  maxGeminiRequests :: rat
  maxGpt5Requests :: rat
  maxTotalRequests :: rat
  tier :: SubscriptionTier

text \<open>The object type of \<open>usagePercentages\<close> and of \<open>remaining\<close>.\<close>

record PerService =
  sonnet45 :: rat
  gemini :: rat
  gpt5 :: rat
  total_svc :: rat

record UsageStats =
  limits_st :: CursorProLimits
  quotas_st :: CursorProQuotas
  usagePercentages :: PerService
  remaining :: PerService

datatype ServiceType = Sonnet45 | Gemini | Gpt5 | Total

record ServiceUsage =
  service :: ServiceType
  current :: rat
  max_su :: rat
  percentage :: rat
  remaining_su :: rat
  isWarning :: bool
  isCritical :: bool

text \<open>
  An observer is a function object. The model keeps its identity and whether a call
  of it raises; \<open>indexOf\<close> compares callbacks by equality of these values. An
  observer that calls back into the monitor while it is being notified is outside the
  model.
\<close>

datatype callback = Callback (ident: nat) (raises: bool)

type_synonym notification = "callback \<times> UsageStats"

datatype error = ObserverRaised callback

section \<open>The monitor (cursorLimitsMonitor.ts)\<close>

record CursorLimitsMonitor =
  limits :: CursorProLimits
  quotas :: CursorProQuotas
  updateCallbacks :: "callback list"

definition getQuotasForTier :: "SubscriptionTier \<Rightarrow> CursorProQuotas" where
  "getQuotasForTier t =
     (if t = ''pro'' then
        \<lparr>maxSonnet45Requests = 225, maxGeminiRequests = 550, maxGpt5Requests = 500,
         maxTotalRequests = 1275, tier = ''pro''\<rparr>
      else if t = ''pro-plus'' then
        \<lparr>maxSonnet45Requests = 675, maxGeminiRequests = 1650, maxGpt5Requests = 1500,
         maxTotalRequests = 3825, tier = ''pro-plus''\<rparr>
      else if t = ''ultra'' then
        \<lparr>maxSonnet45Requests = 4500, maxGeminiRequests = 11000, maxGpt5Requests = 10000,
         maxTotalRequests = 25500, tier = ''ultra''\<rparr>
      else
        \<lparr>maxSonnet45Requests = 225, maxGeminiRequests = 550, maxGpt5Requests = 500,
         maxTotalRequests = 1275, tier = ''pro''\<rparr>)"

text \<open>The constructor; \<open>now\<close> is what \<open>new Date()\<close> returns.\<close>

definition newCursorLimitsMonitor :: "Date \<Rightarrow> SubscriptionTier \<Rightarrow> CursorLimitsMonitor" where
  "newCursorLimitsMonitor now t =
     \<lparr>limits = \<lparr>sonnet45Requests = 0, geminiRequests = 0, gpt5Requests = 0,
                 totalRequests = 0, lastUpdated = now\<rparr>,
      quotas = getQuotasForTier t,
      updateCallbacks = []\<rparr>"

definition getCurrentTier :: "CursorLimitsMonitor \<Rightarrow> SubscriptionTier" where
  "getCurrentTier m = tier (quotas m)"

definition calculatePercentage :: "rat \<Rightarrow> rat \<Rightarrow> rat" where
  "calculatePercentage cur mx = (if mx = 0 then 0 else min 100 ((cur / mx) * 100))"

definition getUsageStats :: "CursorLimitsMonitor \<Rightarrow> UsageStats" where
  "getUsageStats m =
     \<lparr>limits_st = limits m,
      quotas_st = quotas m,
      usagePercentages =
        \<lparr>sonnet45 = calculatePercentage (sonnet45Requests (limits m)) (maxSonnet45Requests (quotas m)),
         gemini = calculatePercentage (geminiRequests (limits m)) (maxGeminiRequests (quotas m)),
         gpt5 = calculatePercentage (gpt5Requests (limits m)) (maxGpt5Requests (quotas m)),
         total_svc = calculatePercentage (totalRequests (limits m)) (maxTotalRequests (quotas m))\<rparr>,
      remaining =
        \<lparr>sonnet45 = max 0 (maxSonnet45Requests (quotas m) - sonnet45Requests (limits m)),
         gemini = max 0 (maxGeminiRequests (quotas m) - geminiRequests (limits m)),
         gpt5 = max 0 (maxGpt5Requests (quotas m) - gpt5Requests (limits m)),
         total_svc = max 0 (maxTotalRequests (quotas m) - totalRequests (limits m))\<rparr>\<rparr>"

text \<open>
  \<open>getCurrentUsage\<close> and \<open>getMaxUsage\<close>: their default branches are not reachable
  for a value of \<open>ServiceType\<close>.
\<close>

fun getCurrentUsage :: "CursorLimitsMonitor \<Rightarrow> ServiceType \<Rightarrow> rat" where
  "getCurrentUsage m Sonnet45 = sonnet45Requests (limits m)"
| "getCurrentUsage m Gemini = geminiRequests (limits m)"
| "getCurrentUsage m Gpt5 = gpt5Requests (limits m)"
| "getCurrentUsage m Total = totalRequests (limits m)"

fun getMaxUsage :: "CursorLimitsMonitor \<Rightarrow> ServiceType \<Rightarrow> rat" where
  "getMaxUsage m Sonnet45 = maxSonnet45Requests (quotas m)"
| "getMaxUsage m Gemini = maxGeminiRequests (quotas m)"
| "getMaxUsage m Gpt5 = maxGpt5Requests (quotas m)"
| "getMaxUsage m Total = maxTotalRequests (quotas m)"

text \<open>The property access \<open>obj[service]\<close> on a \<open>PerService\<close> object.\<close>

fun at_service :: "PerService \<Rightarrow> ServiceType \<Rightarrow> rat" where
  "at_service p Sonnet45 = sonnet45 p"
| "at_service p Gemini = gemini p"
| "at_service p Gpt5 = gpt5 p"
| "at_service p Total = total_svc p"

definition getServiceUsage :: "CursorLimitsMonitor \<Rightarrow> ServiceType \<Rightarrow> ServiceUsage" where
  "getServiceUsage m s =
     (let stats = getUsageStats m;
          cur = getCurrentUsage m s;
          mx = getMaxUsage m s;
          pct = at_service (usagePercentages stats) s;
          rem = at_service (remaining stats) s
      in \<lparr>service = s, current = cur, max_su = mx, percentage = pct, remaining_su = rem,
          isWarning = (pct \<ge> 8 / 10), isCritical = (pct \<ge> 95 / 100)\<rparr>)"

definition services :: "ServiceType list" where
  "services = [Sonnet45, Gemini, Gpt5, Total]"

definition checkAlerts :: "CursorLimitsMonitor \<Rightarrow> ServiceUsage list" where
  "checkAlerts m =
     filter (\<lambda>usage. isWarning usage \<or> isCritical usage) (map (getServiceUsage m) services)"

text \<open>
  \<open>notifyCallbacks\<close> runs \<open>forEach\<close> over the callback array with one
  \<open>UsageStats\<close> value. Nothing catches what a callback raises: the iteration stops
  there and the exception leaves the caller. The result is the list of calls
  made, in order, and the exception if there is one.
\<close>

fun forEach_callbacks :: "callback list \<Rightarrow> UsageStats \<Rightarrow> notification list \<times> error option" where
  "forEach_callbacks [] stats = ([], None)"
| "forEach_callbacks (cb # cbs) stats =
     (if raises cb then ([(cb, stats)], Some (ObserverRaised cb))
      else (case forEach_callbacks cbs stats of (calls, e) \<Rightarrow> ((cb, stats) # calls, e)))"

definition notifyCallbacks :: "CursorLimitsMonitor \<Rightarrow> notification list \<times> error option" where
  "notifyCallbacks m = forEach_callbacks (updateCallbacks m) (getUsageStats m)"

text \<open>
  What a call leaves behind: the monitor after it, the value it returns, the
  observer calls it made and the exception that left it. Assignments made before an
  exception stay.
\<close>

datatype retval =
    RVoid
  | RTier SubscriptionTier
  | RStats UsageStats
  | RService ServiceUsage
  | RAlerts "ServiceUsage list"

record outcome =
  state_after :: CursorLimitsMonitor
  returned :: retval
  notified :: "notification list"
  thrown :: "error option"

definition updateTier :: "SubscriptionTier \<Rightarrow> CursorLimitsMonitor \<Rightarrow> outcome" where
  "updateTier t m =
     (let m' = m\<lparr>quotas := getQuotasForTier t\<rparr>
      in \<lparr>state_after = m', returned = RVoid,
          notified = fst (notifyCallbacks m'), thrown = snd (notifyCallbacks m')\<rparr>)"

text \<open>
  The object spread \<open>{...this.limits, ...newLimits, lastUpdated: new Date()}\<close>: a
  field of \<open>newLimits\<close> that is present replaces the old one, and \<open>lastUpdated\<close>
  is written last.
\<close>

definition spreadLimits :: "CursorProLimits \<Rightarrow> PartialLimits \<Rightarrow> Date \<Rightarrow> CursorProLimits" where
  "spreadLimits old newLimits now =
     \<lparr>sonnet45Requests =
        (case p_sonnet45Requests newLimits of Some v \<Rightarrow> v | None \<Rightarrow> sonnet45Requests old),
      geminiRequests =
        (case p_geminiRequests newLimits of Some v \<Rightarrow> v | None \<Rightarrow> geminiRequests old),
      gpt5Requests =
        (case p_gpt5Requests newLimits of Some v \<Rightarrow> v | None \<Rightarrow> gpt5Requests old),
      totalRequests =
        (case p_totalRequests newLimits of Some v \<Rightarrow> v | None \<Rightarrow> totalRequests old),
      lastUpdated = now\<rparr>"

definition updateLimits :: "Date \<Rightarrow> PartialLimits \<Rightarrow> CursorLimitsMonitor \<Rightarrow> outcome" where
  "updateLimits now newLimits m =
     (let m' = m\<lparr>limits := spreadLimits (limits m) newLimits now\<rparr>
      in \<lparr>state_after = m', returned = RVoid,
          notified = fst (notifyCallbacks m'), thrown = snd (notifyCallbacks m')\<rparr>)"

definition onUpdate :: "callback \<Rightarrow> CursorLimitsMonitor \<Rightarrow> CursorLimitsMonitor" where
  "onUpdate cb m = m\<lparr>updateCallbacks := updateCallbacks m @ [cb]\<rparr>"

text \<open>\<open>Array.prototype.indexOf\<close>: the first index holding the value, or \<open>-1\<close>.\<close>

fun indexOf :: "'a list \<Rightarrow> 'a \<Rightarrow> int" where
  "indexOf [] x = - 1"
| "indexOf (y # ys) x =
     (if y = x then 0 else (let i = indexOf ys x in if i > - 1 then i + 1 else - 1))"

text \<open>\<open>splice(index, 1)\<close> for an index inside the array.\<close>

definition splice1 :: "'a list \<Rightarrow> nat \<Rightarrow> 'a list" where
  "splice1 xs i = take i xs @ drop (Suc i) xs"

definition removeUpdateCallback :: "callback \<Rightarrow> CursorLimitsMonitor \<Rightarrow> CursorLimitsMonitor" where
  "removeUpdateCallback cb m =
     (let index = indexOf (updateCallbacks m) cb
      in if index > - 1 then m\<lparr>updateCallbacks := splice1 (updateCallbacks m) (nat index)\<rparr>
         else m)"

subsection \<open>Calls of the public operations\<close>

datatype call =
    UpdateTier SubscriptionTier
  | GetCurrentTier
  | UpdateLimits Date PartialLimits
  | GetUsageStats
  | GetServiceUsage ServiceType
  | CheckAlerts
  | OnUpdate callback
  | RemoveUpdateCallback callback

definition returns :: "CursorLimitsMonitor \<Rightarrow> retval \<Rightarrow> outcome" where
  "returns m v = \<lparr>state_after = m, returned = v, notified = [], thrown = None\<rparr>"

fun invoke :: "call \<Rightarrow> CursorLimitsMonitor \<Rightarrow> outcome" where
  "invoke (UpdateTier t) m = updateTier t m"
| "invoke GetCurrentTier m = returns m (RTier (getCurrentTier m))"
| "invoke (UpdateLimits now newLimits) m = updateLimits now newLimits m"
| "invoke GetUsageStats m = returns m (RStats (getUsageStats m))"
| "invoke (GetServiceUsage s) m = returns m (RService (getServiceUsage m s))"
| "invoke CheckAlerts m = returns m (RAlerts (checkAlerts m))"
| "invoke (OnUpdate cb) m = returns (onUpdate cb m) RVoid"
| "invoke (RemoveUpdateCallback cb) m = returns (removeUpdateCallback cb m) RVoid"

text \<open>
  A caller makes one call after the other on the same monitor, also after a call that
  raised. \<open>run\<close> gives the outcome of each call, in order.
\<close>

fun run :: "call list \<Rightarrow> CursorLimitsMonitor \<Rightarrow> outcome list" where
  "run [] m = []"
| "run (c # cs) m = invoke c m # run cs (state_after (invoke c m))"

definition final_state :: "call list \<Rightarrow> CursorLimitsMonitor \<Rightarrow> CursorLimitsMonitor" where
  "final_state cs m = (case run cs m of [] \<Rightarrow> m | os \<Rightarrow> state_after (last os))"

definition is_query :: "call \<Rightarrow> bool" where
  "is_query c =
     (case c of GetCurrentTier \<Rightarrow> True | GetUsageStats \<Rightarrow> True | GetServiceUsage s \<Rightarrow> True
      | CheckAlerts \<Rightarrow> True | _ \<Rightarrow> False)"

text \<open>An update whose supplied counts are all non-negative.\<close>

definition nonneg_field :: "rat option \<Rightarrow> bool" where
  "nonneg_field f = (case f of None \<Rightarrow> True | Some v \<Rightarrow> 0 \<le> v)"

definition nonneg_update :: "PartialLimits \<Rightarrow> bool" where
  "nonneg_update p =
     (nonneg_field (p_sonnet45Requests p) \<and> nonneg_field (p_geminiRequests p) \<and>
      nonneg_field (p_gpt5Requests p) \<and> nonneg_field (p_totalRequests p))"

fun nonneg_call :: "call \<Rightarrow> bool" where
  "nonneg_call (UpdateLimits now newLimits) = nonneg_update newLimits"
| "nonneg_call c = True"

text \<open>Counts that are not negative, ceilings that are positive.\<close>

definition nonneg_limits :: "CursorProLimits \<Rightarrow> bool" where
  "nonneg_limits l =
     (0 \<le> sonnet45Requests l \<and> 0 \<le> geminiRequests l \<and> 0 \<le> gpt5Requests l \<and>
      0 \<le> totalRequests l)"

definition positive_quotas :: "CursorProQuotas \<Rightarrow> bool" where
  "positive_quotas q =
     (0 < maxSonnet45Requests q \<and> 0 < maxGeminiRequests q \<and> 0 < maxGpt5Requests q \<and>
      0 < maxTotalRequests q)"

text \<open>
  The monitor of the example: the base tier with the counts 200, 500, 450 and 1150,
  written at time 1 into a monitor built at time 0.
\<close>

definition example_update :: PartialLimits where
  "example_update =
     \<lparr>p_sonnet45Requests = Some 200, p_geminiRequests = Some 500, p_gpt5Requests = Some 450,
      p_totalRequests = Some 1150, p_lastUpdated = None\<rparr>"

definition example_monitor :: CursorLimitsMonitor where
  "example_monitor = state_after (updateLimits 1 example_update (newCursorLimitsMonitor 0 ''pro''))"

text \<open>An update that puts one count above its ceiling.\<close>

definition over_update :: PartialLimits where
  "over_update =
     \<lparr>p_sonnet45Requests = None, p_geminiRequests = Some 600, p_gpt5Requests = None,
      p_totalRequests = None, p_lastUpdated = None\<rparr>"

text \<open>The snapshot and the one-field update of the partial-update example.\<close>

definition snapshot_monitor :: CursorLimitsMonitor where
  "snapshot_monitor =
     \<lparr>limits = \<lparr>sonnet45Requests = 10, geminiRequests = 20, gpt5Requests = 5,
                 totalRequests = 35, lastUpdated = 7\<rparr>,
      quotas = getQuotasForTier ''pro'',
      updateCallbacks = [Callback 1 False]\<rparr>"

definition gemini_update :: PartialLimits where
  "gemini_update =
     \<lparr>p_sonnet45Requests = None, p_geminiRequests = Some 25, p_gpt5Requests = None,
      p_totalRequests = None, p_lastUpdated = None\<rparr>"




section \<open>The example monitor\<close>

lemmas example_defs = example_monitor_def example_update_def updateLimits_def spreadLimits_def
  newCursorLimitsMonitor_def getQuotasForTier_def

lemma example_monitor_eq:
  "example_monitor =
     \<lparr>limits = \<lparr>sonnet45Requests = 200, geminiRequests = 500, gpt5Requests = 450,
                 totalRequests = 1150, lastUpdated = 1\<rparr>,
      quotas = \<lparr>maxSonnet45Requests = 225, maxGeminiRequests = 550, maxGpt5Requests = 500,
                 maxTotalRequests = 1275, tier = ''pro''\<rparr>,
      updateCallbacks = []\<rparr>"
  by (simp add: example_defs Let_def)

section \<open>Alert thresholds\<close>

text \<open>
  C1. The claim: the warning flag is set iff current / ceiling is at least 0.8 and the
  critical flag iff it is at least 0.95, so that the base tier with the counts 200, 500,
  450 and 1150 gives three alerts (gemini, gpt5, total), none critical. The code compares
  the percentage on its scale of 0 to 100 with 0.8 and 0.95: on that monitor
  \<open>checkAlerts\<close> returns all four services, every one critical, sonnet45 at
  88.9 percent among them.
\<close>

theorem checkAlerts_example_all_critical:
  "map service (checkAlerts example_monitor) = [Sonnet45, Gemini, Gpt5, Total] \<and>
   map isCritical (checkAlerts example_monitor) = [True, True, True, True] \<and>
   map percentage (checkAlerts example_monitor) = [800 / 9, 1000 / 11, 90, 4600 / 51]"
  by (simp add: example_monitor_eq checkAlerts_def services_def getServiceUsage_def
      getUsageStats_def calculatePercentage_def Let_def)

text \<open>
  C10. In every \<open>ServiceUsage\<close> that \<open>getServiceUsage\<close> or \<open>checkAlerts\<close>
  produces, a set critical flag comes with a set warning flag.
\<close>

theorem critical_implies_warning:
  "(isCritical (getServiceUsage m s) \<longrightarrow> isWarning (getServiceUsage m s)) \<and>
   (\<forall>u \<in> set (checkAlerts m). isCritical u \<longrightarrow> isWarning u)"
  by (auto simp add: checkAlerts_def getServiceUsage_def Let_def)

theorem critical_implies_warning_witness:
  "isCritical (getServiceUsage example_monitor Gpt5) \<and>
   isWarning (getServiceUsage example_monitor Gpt5) \<and>
   getServiceUsage example_monitor Gpt5 \<in> set (checkAlerts example_monitor)"
proof -
  have h: "isCritical (getServiceUsage example_monitor Gpt5)"
    by (simp add: example_monitor_eq getServiceUsage_def getUsageStats_def
        calculatePercentage_def Let_def)
  have w: "isWarning (getServiceUsage example_monitor Gpt5)"
    using h critical_implies_warning [of example_monitor Gpt5] by simp
  from h w show ?thesis by (simp add: checkAlerts_def services_def)
qed

section \<open>Quota catalog\<close>

text \<open>
  C2. \<open>getQuotasForTier\<close> returns the ceilings 225/550/500/1275 for pro,
  675/1650/1500/3825 for pro-plus and 4500/11000/10000/25500 for ultra, and for every
  other identifier the quota set of pro.
\<close>

theorem getQuotasForTier_table:
  "getQuotasForTier ''pro'' =
     \<lparr>maxSonnet45Requests = 225, maxGeminiRequests = 550, maxGpt5Requests = 500,
      maxTotalRequests = 1275, tier = ''pro''\<rparr> \<and>
   getQuotasForTier ''pro-plus'' =
     \<lparr>maxSonnet45Requests = 675, maxGeminiRequests = 1650, maxGpt5Requests = 1500,
      maxTotalRequests = 3825, tier = ''pro-plus''\<rparr> \<and>
   getQuotasForTier ''ultra'' =
     \<lparr>maxSonnet45Requests = 4500, maxGeminiRequests = 11000, maxGpt5Requests = 10000,
      maxTotalRequests = 25500, tier = ''ultra''\<rparr> \<and>
   (t \<notin> {''pro'', ''pro-plus'', ''ultra''} \<longrightarrow> getQuotasForTier t = getQuotasForTier ''pro'')"
  by (simp add: getQuotasForTier_def)

theorem getQuotasForTier_table_witness:
  "''enterprise'' \<notin> {''pro'', ''pro-plus'', ''ultra''} \<and>
   getQuotasForTier ''enterprise'' =
     \<lparr>maxSonnet45Requests = 225, maxGeminiRequests = 550, maxGpt5Requests = 500,
      maxTotalRequests = 1275, tier = ''pro''\<rparr>"
  using getQuotasForTier_table [of "''enterprise''"] by simp

section \<open>Derived statistics\<close>

lemma calculatePercentage_formula:
  "calculatePercentage cur mx = (if mx = 0 then 0 else min 100 (100 * cur / mx))"
  by (simp add: calculatePercentage_def mult.commute)

lemma calculatePercentage_le_100: "calculatePercentage cur mx \<le> 100"
  by (simp add: calculatePercentage_def)

lemma calculatePercentage_nonneg: "0 \<le> cur \<Longrightarrow> 0 < mx \<Longrightarrow> 0 \<le> calculatePercentage cur mx"
  by (simp add: calculatePercentage_def)

lemma calculatePercentage_full: "0 < mx \<Longrightarrow> mx \<le> cur \<Longrightarrow> calculatePercentage cur mx = 100"
proof -
  assume p: "0 < mx" and le: "mx \<le> cur"
  from p le have "100 \<le> (cur / mx) * 100" by (simp add: field_simps)
  with p show ?thesis by (simp add: calculatePercentage_def min_def)
qed

lemma percentage_at_service:
  "at_service (usagePercentages (getUsageStats m)) c =
     calculatePercentage (getCurrentUsage m c) (getMaxUsage m c)"
  by (cases c) (simp_all add: getUsageStats_def)

lemma remaining_at_service:
  "at_service (remaining (getUsageStats m)) c = max 0 (getMaxUsage m c - getCurrentUsage m c)"
  by (cases c) (simp_all add: getUsageStats_def)

subsection \<open>Monitors reached by updates with non-negative counts\<close>

lemma positive_getQuotasForTier: "positive_quotas (getQuotasForTier t)"
  by (simp add: positive_quotas_def getQuotasForTier_def)

lemma nonneg_spreadLimits:
  "nonneg_limits l \<Longrightarrow> nonneg_update p \<Longrightarrow> nonneg_limits (spreadLimits l p now)"
  by (simp add: nonneg_limits_def nonneg_update_def nonneg_field_def spreadLimits_def
      split: option.splits)

lemma limits_removeUpdateCallback [simp]: "limits (removeUpdateCallback cb m) = limits m"
  by (simp add: removeUpdateCallback_def Let_def)

lemma quotas_removeUpdateCallback [simp]: "quotas (removeUpdateCallback cb m) = quotas m"
  by (simp add: removeUpdateCallback_def Let_def)

lemma invoke_keeps_wellformed:
  assumes "nonneg_call c" and "nonneg_limits (limits m)" and "positive_quotas (quotas m)"
  shows "nonneg_limits (limits (state_after (invoke c m))) \<and>
         positive_quotas (quotas (state_after (invoke c m)))"
  using assms
  by (cases c)
     (simp_all add: updateTier_def updateLimits_def returns_def onUpdate_def Let_def
        positive_getQuotasForTier nonneg_spreadLimits)

lemma final_state_Nil [simp]: "final_state [] m = m"
  by (simp add: final_state_def)

lemma final_state_Cons [simp]:
  "final_state (c # cs) m = final_state cs (state_after (invoke c m))"
  by (cases cs) (simp_all add: final_state_def)

lemma run_keeps_wellformed:
  "list_all nonneg_call cs \<Longrightarrow> nonneg_limits (limits m) \<Longrightarrow> positive_quotas (quotas m) \<Longrightarrow>
   nonneg_limits (limits (final_state cs m)) \<and> positive_quotas (quotas (final_state cs m))"
proof (induction cs arbitrary: m)
  case Nil
  then show ?case by simp
next
  case (Cons c cs)
  from Cons.prems have c: "nonneg_call c" and cs: "list_all nonneg_call cs" by simp_all
  from invoke_keeps_wellformed [OF c Cons.prems(2) Cons.prems(3)]
  have "nonneg_limits (limits (state_after (invoke c m)))"
    and "positive_quotas (quotas (state_after (invoke c m)))" by simp_all
  from Cons.IH [OF cs this] show ?case by simp
qed

lemma new_wellformed:
  "nonneg_limits (limits (newCursorLimitsMonitor now t)) \<and>
   positive_quotas (quotas (newCursorLimitsMonitor now t))"
  by (simp add: newCursorLimitsMonitor_def nonneg_limits_def positive_getQuotasForTier)

lemma wellformed_at_service:
  "nonneg_limits (limits m) \<Longrightarrow> positive_quotas (quotas m) \<Longrightarrow>
   0 \<le> getCurrentUsage m c \<and> 0 < getMaxUsage m c"
  by (cases c) (simp_all add: nonneg_limits_def positive_quotas_def)

text \<open>
  C3. For every monitor and every service, also the aggregate, \<open>getUsageStats\<close>
  gives the percentage min(100, 100 * current / ceiling), and 0 for a ceiling of 0, and
  the remaining count max(0, ceiling - current). In a monitor reached from the constructor
  by calls whose updates supply only non-negative counts, the percentage lies between 0
  and 100, is 100 whenever the count has reached the ceiling, and the remaining count is
  not negative.
\<close>

theorem getUsageStats_figures:
  "at_service (usagePercentages (getUsageStats m)) c =
     (if getMaxUsage m c = 0 then 0
      else min 100 (100 * getCurrentUsage m c / getMaxUsage m c)) \<and>
   at_service (remaining (getUsageStats m)) c = max 0 (getMaxUsage m c - getCurrentUsage m c) \<and>
   (list_all nonneg_call cs \<and> r = final_state cs (newCursorLimitsMonitor now t) \<longrightarrow>
      0 \<le> at_service (usagePercentages (getUsageStats r)) c \<and>
      at_service (usagePercentages (getUsageStats r)) c \<le> 100 \<and>
      (getMaxUsage r c \<le> getCurrentUsage r c \<longrightarrow>
         at_service (usagePercentages (getUsageStats r)) c = 100) \<and>
      0 \<le> at_service (remaining (getUsageStats r)) c)"
proof -
  have formula: "at_service (usagePercentages (getUsageStats m)) c =
     (if getMaxUsage m c = 0 then 0
      else min 100 (100 * getCurrentUsage m c / getMaxUsage m c))"
    by (simp only: percentage_at_service calculatePercentage_formula)
  have rest: "at_service (remaining (getUsageStats m)) c =
     max 0 (getMaxUsage m c - getCurrentUsage m c)"
    by (rule remaining_at_service)
  have reach: "0 \<le> at_service (usagePercentages (getUsageStats r)) c \<and>
      at_service (usagePercentages (getUsageStats r)) c \<le> 100 \<and>
      (getMaxUsage r c \<le> getCurrentUsage r c \<longrightarrow>
         at_service (usagePercentages (getUsageStats r)) c = 100) \<and>
      0 \<le> at_service (remaining (getUsageStats r)) c"
    if cs: "list_all nonneg_call cs" and r: "r = final_state cs (newCursorLimitsMonitor now t)"
  proof -
    from new_wellformed [of now t]
    have "nonneg_limits (limits (newCursorLimitsMonitor now t))"
      and "positive_quotas (quotas (newCursorLimitsMonitor now t))" by simp_all
    from run_keeps_wellformed [OF cs this] r
    have "nonneg_limits (limits r)" and "positive_quotas (quotas r)" by simp_all
    from wellformed_at_service [OF this, of c]
    have cur: "0 \<le> getCurrentUsage r c" and mx: "0 < getMaxUsage r c" by simp_all
    show ?thesis
      by (simp add: percentage_at_service remaining_at_service calculatePercentage_le_100
          calculatePercentage_nonneg [OF cur mx] calculatePercentage_full [OF mx])
  qed
  from formula rest reach show ?thesis by blast
qed

theorem getUsageStats_figures_witness:
  "list_all nonneg_call [UpdateLimits 1 over_update] \<and>
   getMaxUsage (final_state [UpdateLimits 1 over_update] (newCursorLimitsMonitor 0 ''pro'')) Gemini
     \<le> getCurrentUsage (final_state [UpdateLimits 1 over_update] (newCursorLimitsMonitor 0 ''pro'')) Gemini \<and>
   at_service (usagePercentages (getUsageStats
     (final_state [UpdateLimits 1 over_update] (newCursorLimitsMonitor 0 ''pro'')))) Gemini = 100 \<and>
   at_service (remaining (getUsageStats
     (final_state [UpdateLimits 1 over_update] (newCursorLimitsMonitor 0 ''pro'')))) Gemini = 0"
proof -
  let ?r = "final_state [UpdateLimits 1 over_update] (newCursorLimitsMonitor 0 ''pro'')"
  have h1: "list_all nonneg_call [UpdateLimits 1 over_update]"
    by (simp add: nonneg_update_def nonneg_field_def over_update_def)
  have v: "getMaxUsage ?r Gemini = 550 \<and> getCurrentUsage ?r Gemini = 600"
    by (simp add: over_update_def updateLimits_def spreadLimits_def newCursorLimitsMonitor_def
        getQuotasForTier_def Let_def)
  from h1 v
    getUsageStats_figures [of ?r Gemini "[UpdateLimits 1 over_update]" ?r 0 "''pro''"]
  show ?thesis by simp
qed

section \<open>Alerts\<close>

lemma service_getServiceUsage [simp]: "service (getServiceUsage m s) = s"
  by (simp add: getServiceUsage_def Let_def)

text \<open>
  C4. \<open>checkAlerts\<close> evaluates \<open>getServiceUsage\<close> for sonnet45, gemini, gpt5 and
  total in this order and returns exactly the entries whose warning or critical flag is
  set, in that order, with no service twice.
\<close>

theorem checkAlerts_selection:
  "checkAlerts m =
     map (getServiceUsage m)
       (filter (\<lambda>s. isWarning (getServiceUsage m s) \<or> isCritical (getServiceUsage m s))
          [Sonnet45, Gemini, Gpt5, Total]) \<and>
   subseq (map service (checkAlerts m)) [Sonnet45, Gemini, Gpt5, Total] \<and>
   distinct (map service (checkAlerts m))"
proof -
  let ?alert = "\<lambda>s. isWarning (getServiceUsage m s) \<or> isCritical (getServiceUsage m s)"
  have sel: "checkAlerts m = map (getServiceUsage m) (filter ?alert [Sonnet45, Gemini, Gpt5, Total])"
    by (simp add: checkAlerts_def services_def filter_map comp_def)
  have names: "map service (checkAlerts m) = filter ?alert [Sonnet45, Gemini, Gpt5, Total]"
    by (simp only: sel map_map comp_def service_getServiceUsage map_ident)
  have sub: "subseq (map service (checkAlerts m)) [Sonnet45, Gemini, Gpt5, Total]"
    by (simp only: names subseq_filter_left)
  have dist: "distinct (map service (checkAlerts m))"
    unfolding names by (rule distinct_filter) simp
  from sel sub dist show ?thesis by blast
qed

theorem checkAlerts_selection_witness:
  "map service (checkAlerts (state_after (updateLimits 8 gemini_update
      (newCursorLimitsMonitor 0 ''pro'')))) = [Gemini]"
proof -
  let ?m = "state_after (updateLimits 8 gemini_update (newCursorLimitsMonitor 0 ''pro''))"
  have flags: "\<not> isWarning (getServiceUsage ?m Sonnet45) \<and> isWarning (getServiceUsage ?m Gemini) \<and>
      \<not> isWarning (getServiceUsage ?m Gpt5) \<and> \<not> isWarning (getServiceUsage ?m Total) \<and>
      \<not> isCritical (getServiceUsage ?m Sonnet45) \<and>
      \<not> isCritical (getServiceUsage ?m Gpt5) \<and> \<not> isCritical (getServiceUsage ?m Total)"
    by (simp add: gemini_update_def updateLimits_def spreadLimits_def newCursorLimitsMonitor_def
        getQuotasForTier_def getServiceUsage_def getUsageStats_def calculatePercentage_def Let_def)
  from flags checkAlerts_selection [of ?m] show ?thesis by simp
qed

section \<open>Updates\<close>

text \<open>
  C5. \<open>updateLimits\<close> sets each supplied count to the supplied value, leaves each
  count that is not supplied as it was, and writes the current time into
  \<open>lastUpdated\<close>; quotas and observers are not touched. From the snapshot
  10/20/5/35 the update with only gemini = 25 gives 10/25/5/35.
\<close>

theorem updateLimits_partial_merge:
  "(\<forall>v. p_sonnet45Requests p = Some v \<longrightarrow>
        sonnet45Requests (limits (state_after (updateLimits now p m))) = v) \<and>
   (p_sonnet45Requests p = None \<longrightarrow>
        sonnet45Requests (limits (state_after (updateLimits now p m))) = sonnet45Requests (limits m)) \<and>
   (\<forall>v. p_geminiRequests p = Some v \<longrightarrow>
        geminiRequests (limits (state_after (updateLimits now p m))) = v) \<and>
   (p_geminiRequests p = None \<longrightarrow>
        geminiRequests (limits (state_after (updateLimits now p m))) = geminiRequests (limits m)) \<and>
   (\<forall>v. p_gpt5Requests p = Some v \<longrightarrow>
        gpt5Requests (limits (state_after (updateLimits now p m))) = v) \<and>
   (p_gpt5Requests p = None \<longrightarrow>
        gpt5Requests (limits (state_after (updateLimits now p m))) = gpt5Requests (limits m)) \<and>
   (\<forall>v. p_totalRequests p = Some v \<longrightarrow>
        totalRequests (limits (state_after (updateLimits now p m))) = v) \<and>
   (p_totalRequests p = None \<longrightarrow>
        totalRequests (limits (state_after (updateLimits now p m))) = totalRequests (limits m)) \<and>
   lastUpdated (limits (state_after (updateLimits now p m))) = now \<and>
   quotas (state_after (updateLimits now p m)) = quotas m \<and>
   updateCallbacks (state_after (updateLimits now p m)) = updateCallbacks m"
  by (simp add: updateLimits_def spreadLimits_def Let_def)

theorem updateLimits_partial_merge_witness:
  "p_geminiRequests gemini_update = Some 25 \<and> p_sonnet45Requests gemini_update = None \<and>
   p_gpt5Requests gemini_update = None \<and> p_totalRequests gemini_update = None \<and>
   limits (state_after (updateLimits 8 gemini_update snapshot_monitor)) =
     \<lparr>sonnet45Requests = 10, geminiRequests = 25, gpt5Requests = 5, totalRequests = 35,
      lastUpdated = 8\<rparr>"
proof -
  have h: "p_geminiRequests gemini_update = Some 25 \<and> p_sonnet45Requests gemini_update = None \<and>
      p_gpt5Requests gemini_update = None \<and> p_totalRequests gemini_update = None"
    by (simp add: gemini_update_def)
  have old: "limits snapshot_monitor =
      \<lparr>sonnet45Requests = 10, geminiRequests = 20, gpt5Requests = 5, totalRequests = 35,
       lastUpdated = 7\<rparr>"
    by (simp add: snapshot_monitor_def)
  from h old updateLimits_partial_merge [of gemini_update 8 snapshot_monitor]
  show ?thesis by (simp add: CursorProLimits.equality)
qed

text \<open>
  C6. \<open>updateTier\<close> leaves the four counts and \<open>lastUpdated\<close> as they were, and
  the observers too; it replaces the quotas by those of the tier, and it notifies the
  observers as \<open>updateLimits\<close> does: with \<open>notifyCallbacks\<close> on the monitor it
  leaves.
\<close>

theorem updateTier_frame:
  "limits (state_after (updateTier t m)) = limits m \<and>
   updateCallbacks (state_after (updateTier t m)) = updateCallbacks m \<and>
   quotas (state_after (updateTier t m)) = getQuotasForTier t \<and>
   (notified (updateTier t m), thrown (updateTier t m)) =
     notifyCallbacks (state_after (updateTier t m)) \<and>
   (notified (updateLimits now p m), thrown (updateLimits now p m)) =
     notifyCallbacks (state_after (updateLimits now p m))"
  by (simp add: updateTier_def updateLimits_def Let_def)

theorem updateTier_frame_witness:
  "limits (state_after (updateTier ''pro-plus'' snapshot_monitor)) =
     \<lparr>sonnet45Requests = 10, geminiRequests = 20, gpt5Requests = 5, totalRequests = 35,
      lastUpdated = 7\<rparr> \<and>
   maxSonnet45Requests (quotas (state_after (updateTier ''pro-plus'' snapshot_monitor))) = 675 \<and>
   map fst (notified (updateTier ''pro-plus'' snapshot_monitor)) = [Callback 1 False]"
proof -
  have cbs: "updateCallbacks snapshot_monitor = [Callback 1 False]"
    and old: "limits snapshot_monitor =
      \<lparr>sonnet45Requests = 10, geminiRequests = 20, gpt5Requests = 5, totalRequests = 35,
       lastUpdated = 7\<rparr>"
    by (simp_all add: snapshot_monitor_def)
  have eq: "notified (updateTier ''pro-plus'' snapshot_monitor) =
      fst (notifyCallbacks (state_after (updateTier ''pro-plus'' snapshot_monitor)))"
    using updateTier_frame [of "''pro-plus''" snapshot_monitor]
    by (metis fst_conv)
  from cbs old eq updateTier_frame [of "''pro-plus''" snapshot_monitor]
  show ?thesis by (simp add: notifyCallbacks_def getQuotasForTier_def)
qed

section \<open>Queries\<close>

lemma query_outcome:
  "is_query c \<Longrightarrow>
   state_after (invoke c m) = m \<and> notified (invoke c m) = [] \<and> thrown (invoke c m) = None"
  by (cases c) (simp_all add: is_query_def returns_def)

lemma queries_run:
  "list_all is_query cs \<Longrightarrow>
   list_all (\<lambda>out. state_after out = m \<and> notified out = [] \<and> thrown out = None) (run cs m)"
proof (induction cs)
  case Nil
  then show ?case by simp
next
  case (Cons c cs)
  then have c: "is_query c" and cs: "list_all is_query cs" by simp_all
  from query_outcome [OF c, of m] Cons.IH [OF cs] show ?case by simp
qed

text \<open>
  C8. A call of \<open>getUsageStats\<close>, \<open>getServiceUsage\<close>, \<open>checkAlerts\<close> or
  \<open>getCurrentTier\<close> leaves the monitor as it was and calls no observer, and so does any
  sequence of them; two calls of \<open>getUsageStats\<close> in a row return the same value.
\<close>

theorem queries_read_only:
  "(is_query c \<longrightarrow>
      state_after (invoke c m) = m \<and> notified (invoke c m) = [] \<and> thrown (invoke c m) = None) \<and>
   (list_all is_query cs \<longrightarrow>
      final_state cs m = m \<and>
      list_all (\<lambda>out. state_after out = m \<and> notified out = [] \<and> thrown out = None) (run cs m)) \<and>
   map returned (run [GetUsageStats, GetUsageStats] m) =
     [RStats (getUsageStats m), RStats (getUsageStats m)]"
proof -
  have one: "is_query c \<longrightarrow>
      state_after (invoke c m) = m \<and> notified (invoke c m) = [] \<and> thrown (invoke c m) = None"
    using query_outcome by blast
  have many: "final_state cs m = m \<and>
      list_all (\<lambda>out. state_after out = m \<and> notified out = [] \<and> thrown out = None) (run cs m)"
    if q: "list_all is_query cs"
  proof -
    from queries_run [OF q, of m]
    have all: "list_all (\<lambda>out. state_after out = m \<and> notified out = [] \<and> thrown out = None) (run cs m)" .
    have "final_state cs m = m"
    proof (cases "run cs m")
      case Nil
      then show ?thesis by (simp add: final_state_def)
    next
      case (Cons out outs)
      then have "last (run cs m) \<in> set (run cs m)" by simp
      with all have "state_after (last (run cs m)) = m" by (simp add: list_all_iff)
      with Cons show ?thesis by (simp add: final_state_def)
    qed
    with all show ?thesis by simp
  qed
  have twice: "map returned (run [GetUsageStats, GetUsageStats] m) =
     [RStats (getUsageStats m), RStats (getUsageStats m)]"
    by (simp add: returns_def)
  from one many twice show ?thesis by blast
qed

theorem queries_read_only_witness:
  "is_query CheckAlerts \<and>
   list_all is_query [GetUsageStats, GetServiceUsage Total, CheckAlerts, GetCurrentTier] \<and>
   state_after (invoke CheckAlerts (onUpdate (Callback 1 True) example_monitor)) =
     onUpdate (Callback 1 True) example_monitor \<and>
   notified (invoke CheckAlerts (onUpdate (Callback 1 True) example_monitor)) = [] \<and>
   final_state [GetUsageStats, GetServiceUsage Total, CheckAlerts, GetCurrentTier]
     (onUpdate (Callback 1 True) example_monitor) = onUpdate (Callback 1 True) example_monitor"
proof -
  have h1: "is_query CheckAlerts" by (simp add: is_query_def)
  have h2: "list_all is_query [GetUsageStats, GetServiceUsage Total, CheckAlerts, GetCurrentTier]"
    by (simp add: is_query_def)
  note ro = queries_read_only [of CheckAlerts "onUpdate (Callback 1 True) example_monitor"
      "[GetUsageStats, GetServiceUsage Total, CheckAlerts, GetCurrentTier]"]
  from ro h1 h2 show ?thesis by blast
qed

section \<open>Observers\<close>

subsection \<open>Removing a callback\<close>







subsection \<open>The calls made by \<open>forEach\<close>\<close>





subsection \<open>An observer that is not registered\<close>










section \<open>Totality\<close>









end
